theory Spec2Isabelle
  imports Complex_Main "HOL-Library.Sublist"
begin

section \<open>Embedding of the launcher's code\<close>

subsection \<open>throttle: ProgressGate (internal/throttle/gate.go)\<close>

text \<open>
  \<^verbatim>\<open>type ProgressGate struct { last float64 }\<close>.
  The float64 field is modelled by a real number: the comparisons of \<^verbatim>\<open>Update\<close>
  are exact here, rounding of the subtraction is not modelled. The field is called
  \<open>last_val\<close> because \<open>last\<close> is a list function of HOL.
\<close>

record ProgressGate =
  last_val :: real


text \<open>
  \<^verbatim>\<open>func (g *ProgressGate) Update(progress float64) bool\<close>: the mutated receiver
  is returned together with the result.
\<close>

definition Update :: "ProgressGate \<Rightarrow> real \<Rightarrow> ProgressGate \<times> bool" where
  "Update g progress =
     (if progress < 0.01 \<or> progress \<ge> 0.99 then (g\<lparr>last_val := progress\<rparr>, True)
      else if progress - last_val g < 0.01 then (g, False)
      else (g\<lparr>last_val := progress\<rparr>, True))"

text \<open>
  Feeding a finite sequence of raw values to one gate, in order; the result is the
  subsequence of the values for which \<open>Update\<close> returned true.
\<close>

fun emitted :: "ProgressGate \<Rightarrow> real list \<Rightarrow> real list" where
  "emitted g [] = []"
| "emitted g (v # vs) =
     (case Update g v of
        (g', True) \<Rightarrow> v # emitted g' vs
      | (g', False) \<Rightarrow> emitted g' vs)"


subsection \<open>Errors\<close>

text \<open>
  Go errors as values. \<open>Wrapped\<close> is \<^verbatim>\<open>fmt.Errorf("...: %w", err)\<close>; \<open>errors_Is\<close>
  is \<^verbatim>\<open>errors.Is\<close>, which looks through the wrapping.
\<close>

datatype error =
    ErrNotExist
  | IOError
  | KeyringError
  | RandError
  | KeySizeError
  | CiphertextTooShort
  | AuthFailed
  | JSONError
  | ErrNotFound
  | PlatformMismatch string string
  | IllegalPath string
  | ErrOffline
  | RequestError
  | Canceled
  | BadStatus nat
  | ChecksumMismatch string string
  | NoChecksums
  | Panic string
  | Wrapped string error

fun errors_Is :: "error \<Rightarrow> error \<Rightarrow> bool" where
  "errors_Is (Wrapped msg e) target = (Wrapped msg e = target \<or> errors_Is e target)"
| "errors_Is e target = (e = target)"

subsection \<open>Paths (path/filepath of the Go library, Unix build)\<close>

text \<open>
  The functions of this subsection belong to Go's standard library, not to the repository.
  They are written out after the library's documentation for a build whose
  \<^verbatim>\<open>filepath.Separator\<close> is \<open>/\<close>, so that the code calling them can be evaluated.
  \<open>split_sep\<close> is \<^verbatim>\<open>strings.Split(s, "/")\<close>, \<open>join_sep\<close> is
  \<^verbatim>\<open>strings.Join(elems, "/")\<close>.
\<close>

fun split_sep :: "string \<Rightarrow> string list" where
  "split_sep [] = [[]]"
| "split_sep (c # cs) =
     (if c = CHR ''/'' then [] # split_sep cs
      else (case split_sep cs of [] \<Rightarrow> [[c]] | x # xs \<Rightarrow> (c # x) # xs))"

fun join_sep :: "string list \<Rightarrow> string" where
  "join_sep [] = []"
| "join_sep [x] = x"
| "join_sep (x # y # ys) = x @ CHR ''/'' # join_sep (y # ys)"

text \<open>
  \<^verbatim>\<open>filepath.Clean\<close>: empty and \<open>.\<close> elements are dropped; \<open>..\<close> removes the element
  before it when there is one that is not \<open>..\<close>, is dropped at the root of a rooted
  path, and is kept otherwise. The elements kept so far are held in reverse order.
\<close>

definition clean_elem :: "bool \<Rightarrow> string list \<Rightarrow> string \<Rightarrow> string list" where
  "clean_elem rooted kept e =
     (if e = [] \<or> e = ''.'' then kept
      else if e = ''..'' then
        (case kept of
           [] \<Rightarrow> (if rooted then [] else [''..''])
         | k # ks \<Rightarrow> (if k = ''..'' then ''..'' # k # ks else ks))
      else e # kept)"

definition clean_elems :: "bool \<Rightarrow> string list \<Rightarrow> string list" where
  "clean_elems rooted es = rev (foldl (clean_elem rooted) [] es)"

definition is_rooted :: "string \<Rightarrow> bool" where
  "is_rooted p = (case p of [] \<Rightarrow> False | c # _ \<Rightarrow> c = CHR ''/'')"

definition filepath_Clean :: "string \<Rightarrow> string" where
  "filepath_Clean p =
     (let body = join_sep (clean_elems (is_rooted p) (split_sep p))
      in if is_rooted p then CHR ''/'' # body
         else if body = [] then ''.'' else body)"

text \<open>
  \<^verbatim>\<open>filepath.Join\<close>: leading empty elements are ignored, the rest is joined with the
  separator and cleaned; the result is empty when every element is.
\<close>

fun filepath_Join :: "string list \<Rightarrow> string" where
  "filepath_Join [] = []"
| "filepath_Join (e # es) =
     (if e = [] then filepath_Join es else filepath_Clean (join_sep (e # es)))"


subsection \<open>The file system and the rest of the environment\<close>

text \<open>
  A path holds nothing, a regular file with its bytes, a file that cannot be opened for
  reading, a directory, or an entry whose \<^verbatim>\<open>os.Stat\<close> fails with an error other than
  not-exist. Bytes are characters.
\<close>

type_synonym bytes = string

datatype node = File bytes | Unreadable | Dir | Inaccessible

type_synonym fs = "string \<Rightarrow> node option"

definition is_file :: "node option \<Rightarrow> bool" where
  "is_file n = (case n of Some (File d) \<Rightarrow> True | Some Unreadable \<Rightarrow> True | _ \<Rightarrow> False)"

definition os_ReadFile :: "fs \<Rightarrow> string \<Rightarrow> error + bytes" where
  "os_ReadFile files p =
     (case files p of
        None \<Rightarrow> Inl ErrNotExist
      | Some (File d) \<Rightarrow> Inr d
      | Some _ \<Rightarrow> Inl IOError)"

text \<open>
  \<^verbatim>\<open>os.WriteFile\<close> creates or truncates a regular file; it fails on a directory and on an
  entry that cannot be opened.
\<close>

definition os_WriteFile :: "fs \<Rightarrow> string \<Rightarrow> bytes \<Rightarrow> fs \<times> error option" where
  "os_WriteFile files p d =
     (case files p of
        None \<Rightarrow> (files(p \<mapsto> File d), None)
      | Some (File old) \<Rightarrow> (files(p \<mapsto> File d), None)
      | Some _ \<Rightarrow> (files, Some IOError))"

text \<open>
  \<^verbatim>\<open>os.Remove\<close> deletes a file, readable or not. Directories are taken to be non-empty,
  so removing one fails, as does removing an entry that cannot be inspected or is absent.
\<close>

definition os_Remove :: "fs \<Rightarrow> string \<Rightarrow> fs \<times> error option" where
  "os_Remove files p =
     (case files p of
        None \<Rightarrow> (files, Some ErrNotExist)
      | Some (File d) \<Rightarrow> (files(p := None), None)
      | Some Unreadable \<Rightarrow> (files(p := None), None)
      | Some _ \<Rightarrow> (files, Some IOError))"

text \<open>
  Randomness: \<^verbatim>\<open>rand.Read(buf)\<close> fills \<open>buf\<close> from a source of bytes, or fails when
  there is no source.
\<close>

type_synonym entropy = "(nat \<Rightarrow> char) option"

definition rand_Read :: "nat \<Rightarrow> entropy \<Rightarrow> error + bytes" where
  "rand_Read n src = (case src of None \<Rightarrow> Inl RandError | Some f \<Rightarrow> Inr (map f [0..<n]))"

text \<open>
  Build-time variables of package \<^verbatim>\<open>build\<close> (set by the linker), and the
  directories of package \<^verbatim>\<open>hytale\<close>, whose functions \<^verbatim>\<open>DataDir\<close> and
  \<^verbatim>\<open>StorageDir\<close> are not part of the files of the repository and are taken as given.
\<close>

record build =
  Release :: string
  Version :: string

record dirs =
  DataDir :: string
  StorageDir :: string

subsection \<open>keyring (package keyring)\<close>

text \<open>
  The platform key stores wrap the system keyring. \<open>enabled\<close> is the Linux store's
  flag (read from \<^verbatim>\<open>HYTALE_LAUNCHER_ENABLE_KEYRING\<close>; the macOS and Windows stores
  behave as with \<open>enabled = True\<close>), \<open>failing\<close> says that the system keyring
  answers with an error, \<open>entries\<close> are the stored secrets (after base64 decoding).
\<close>

record keyStore =
  enabled :: bool
  failing :: bool
  entries :: "string \<Rightarrow> bytes option"

definition store_get :: "keyStore \<Rightarrow> string \<Rightarrow> error + bytes option" where
  "store_get k key =
     (if \<not> enabled k then Inr None
      else if failing k then Inl KeyringError
      else Inr (entries k key))"

definition store_set :: "keyStore \<Rightarrow> string \<Rightarrow> bytes \<Rightarrow> keyStore \<times> error option" where
  "store_set k key v =
     (if \<not> enabled k then (k, None)
      else if failing k then (k, Some KeyringError)
      else (k\<lparr>entries := (entries k)(key \<mapsto> v)\<rparr>, None))"

text \<open>\<^verbatim>\<open>func GetOrGenKey(key string) ([]byte, error)\<close>\<close>

definition GetOrGenKey :: "entropy \<Rightarrow> keyStore \<Rightarrow> string \<Rightarrow> keyStore \<times> (error + bytes)" where
  "GetOrGenKey rnd k key =
     (case store_get k key of
        Inl e \<Rightarrow> (k, Inl (Wrapped ''failed to retrieve key'' e))
      | Inr (Some existingKey) \<Rightarrow> (k, Inr existingKey)
      | Inr None \<Rightarrow>
          (case rand_Read 32 rnd of
             Inl e \<Rightarrow> (k, Inl (Wrapped ''failed to generate key'' e))
           | Inr newKey \<Rightarrow>
               (case store_set k key newKey of
                  (k', Some e) \<Rightarrow> (k', Inl (Wrapped ''failed to store key'' e))
                | (k', None) \<Rightarrow> (k', Inr newKey))))"

subsection \<open>crypto (internal/crypto)\<close>

text \<open>
  AES-GCM comes from Go's library and is a parameter: \<open>seal key nonce plaintext\<close> is
  the ciphertext with its tag, \<open>unseal key nonce ciphertext\<close> the plaintext, or nothing
  when authentication fails. \<^verbatim>\<open>aes.NewCipher\<close> accepts keys of 16, 24 or 32 bytes; the
  nonce size of the GCM mode is 12.
\<close>

record aead =
  seal :: "bytes \<Rightarrow> bytes \<Rightarrow> bytes \<Rightarrow> bytes"
  unseal :: "bytes \<Rightarrow> bytes \<Rightarrow> bytes \<Rightarrow> bytes option"

definition valid_key_size :: "bytes \<Rightarrow> bool" where
  "valid_key_size key = (length key = 16 \<or> length key = 24 \<or> length key = 32)"

definition nonceSize :: nat where
  "nonceSize = 12"

text \<open>\<^verbatim>\<open>func Decrypt(data, key []byte) ([]byte, error)\<close>\<close>

definition Decrypt :: "aead \<Rightarrow> bytes \<Rightarrow> bytes \<Rightarrow> error + bytes" where
  "Decrypt gcm data key =
     (case data of
        [] \<Rightarrow> Inr data
      | marker # rest \<Rightarrow>
          if marker \<noteq> CHR ''E'' then Inr data
          else if \<not> valid_key_size key then Inl KeySizeError
          else if length rest < nonceSize then Inl CiphertextTooShort
          else (case unseal gcm key (take nonceSize rest) (drop nonceSize rest) of
                  None \<Rightarrow> Inl AuthFailed
                | Some plain \<Rightarrow> Inr plain))"

text \<open>\<^verbatim>\<open>func Encrypt(data, key []byte) ([]byte, error)\<close>\<close>

definition Encrypt :: "build \<Rightarrow> aead \<Rightarrow> entropy \<Rightarrow> bytes \<Rightarrow> bytes \<Rightarrow> error + bytes" where
  "Encrypt b gcm rnd data key =
     (if Release b = ''dev'' then Inr data
      else if \<not> valid_key_size key then Inl KeySizeError
      else (case rand_Read nonceSize rnd of
              Inl e \<Rightarrow> Inl e
            | Inr nonce \<Rightarrow> Inr (CHR ''E'' # nonce @ seal gcm key nonce data)))"

text \<open>\<^verbatim>\<open>func DatFile(path string) string\<close>\<close>

definition DatFile :: "fs \<Rightarrow> string \<Rightarrow> string" where
  "DatFile files path =
     (if is_file (files (path @ ''.json'')) then path @ ''.json'' else path @ ''.dat'')"

text \<open>
  \<^verbatim>\<open>func ReadFile(path string, keyName string) ([]byte, error)\<close> and
  \<^verbatim>\<open>func WriteFile(path string, keyName string, data []byte) error\<close>. The state that
  both thread is the file system and the key store.
\<close>

record world =
  files :: fs
  keys :: keyStore

definition crypto_ReadFile :: "aead \<Rightarrow> entropy \<Rightarrow> world \<Rightarrow> string \<Rightarrow> string \<Rightarrow> world \<times> (error + bytes)" where
  "crypto_ReadFile gcm rnd w path keyName =
     (case os_ReadFile (files w) path of
        Inl e \<Rightarrow> (w, Inl e)
      | Inr data \<Rightarrow>
          (case GetOrGenKey rnd (keys w) keyName of
             (k', Inl e) \<Rightarrow> (w\<lparr>keys := k'\<rparr>, Inl (Wrapped ''could not get encryption key'' e))
           | (k', Inr key) \<Rightarrow> (w\<lparr>keys := k'\<rparr>, Decrypt gcm data key)))"

definition crypto_WriteFile ::
  "build \<Rightarrow> aead \<Rightarrow> entropy \<Rightarrow> entropy \<Rightarrow> world \<Rightarrow> string \<Rightarrow> string \<Rightarrow> bytes \<Rightarrow> world \<times> error option" where
  "crypto_WriteFile b gcm rnd_key rnd_nonce w path keyName data =
     (case GetOrGenKey rnd_key (keys w) keyName of
        (k', Inl e) \<Rightarrow> (w\<lparr>keys := k'\<rparr>, Some (Wrapped ''could not get encryption key'' e))
      | (k', Inr key) \<Rightarrow>
          (case Encrypt b gcm rnd_nonce data key of
             Inl e \<Rightarrow> (w\<lparr>keys := k'\<rparr>, Some (Wrapped ''could not encrypt data'' e))
           | Inr encrypted \<Rightarrow>
               (case os_WriteFile (files w) path encrypted of
                  (f', Some e) \<Rightarrow> (w\<lparr>keys := k', files := f'\<rparr>, Some e)
                | (f', None) \<Rightarrow> (w\<lparr>keys := k', files := f'\<rparr>, None))))"

text \<open>
  What the two claims about \<open>Encrypt\<close> and \<open>Decrypt\<close> compose: encrypting and then
  decrypting with the same key.
\<close>

definition decrypt_encrypt :: "build \<Rightarrow> aead \<Rightarrow> entropy \<Rightarrow> bytes \<Rightarrow> bytes \<Rightarrow> error + bytes" where
  "decrypt_encrypt b gcm rnd data key =
     (case Encrypt b gcm rnd data key of
        Inl e \<Rightarrow> Inl e
      | Inr encrypted \<Rightarrow> Decrypt gcm encrypted key)"

text \<open>The correctness of the library's AES-GCM: opening what was sealed gives it back.\<close>

definition aead_correct :: "aead \<Rightarrow> bool" where
  "aead_correct gcm = (\<forall>key nonce plain. unseal gcm key nonce (seal gcm key nonce plain) = Some plain)"

text \<open>
  Stand-ins for the library parameters, used where a statement is evaluated at concrete
  inputs: an authenticated ``cipher'' that reverses the plaintext and appends key and
  nonce as its tag, a source of random bytes, and two builds.
\<close>

definition demo_gcm :: aead where
  "demo_gcm = \<lparr>seal = (\<lambda>key nonce plain. rev plain @ key @ nonce),
               unseal = (\<lambda>key nonce c.
                 if length (key @ nonce) \<le> length c \<and>
                    drop (length c - length (key @ nonce)) c = key @ nonce
                 then Some (rev (take (length c - length (key @ nonce)) c)) else None)\<rparr>"

definition demo_entropy :: entropy where
  "demo_entropy = Some (\<lambda>i. CHR ''n'')"

definition demo_key :: bytes where
  "demo_key = replicate 32 (CHR ''k'')"

definition dev_build :: build where
  "dev_build = \<lparr>Release = ''dev'', Version = ''2026-01-10-c3879fa''\<rparr>"

definition release_build :: build where
  "release_build = \<lparr>Release = ''release'', Version = ''2026-01-10-c3879fa''\<rparr>"

subsection \<open>selfupdate: the cleanup note (internal/selfupdate/cleanup.go)\<close>

record cleanupNote =
  note_Channel :: string
  note_Version :: string

text \<open>\<^verbatim>\<open>cleanupNoteFile\<close>, \<^verbatim>\<open>hytale.ChannelDir\<close> and \<^verbatim>\<open>hytale.PackageDir\<close>\<close>

definition cleanupNoteFile :: "dirs \<Rightarrow> fs \<Rightarrow> string" where
  "cleanupNoteFile d fls = DatFile fls (filepath_Join [DataDir d, ''selfupdate''])"

definition ChannelDir :: "dirs \<Rightarrow> string \<Rightarrow> string" where
  "ChannelDir d channel = filepath_Join [StorageDir d, channel]"

definition PackageDir :: "dirs \<Rightarrow> string \<Rightarrow> string \<Rightarrow> string \<Rightarrow> string" where
  "PackageDir d pkgID channel version =
     filepath_Join [ChannelDir d channel, ''package'', pkgID, version]"

text \<open>
  \<^verbatim>\<open>func consumeCleanupNote() (*cleanupNote, error)\<close>. The deferred
  \<^verbatim>\<open>os.Remove(cleanupNoteFile())\<close> runs on every return, after the result has been
  determined; its error is dropped. \<open>decode\<close> is \<^verbatim>\<open>json.Unmarshal\<close> into a
  \<open>cleanupNote\<close>, \<open>keyName\<close> the constant \<^verbatim>\<open>cleanupNoteKeyName\<close>, which is
  declared outside the files of the repository.
\<close>

definition consumeCleanupNote ::
  "dirs \<Rightarrow> aead \<Rightarrow> entropy \<Rightarrow> (bytes \<Rightarrow> cleanupNote option) \<Rightarrow> string \<Rightarrow> world
     \<Rightarrow> world \<times> (error + cleanupNote option)" where
  "consumeCleanupNote d gcm rnd decode keyName w =
     (case crypto_ReadFile gcm rnd w (cleanupNoteFile d (files w)) keyName of (w1, r) \<Rightarrow>
        let result =
              (case r of
                 Inl e \<Rightarrow> if errors_Is e ErrNotExist then Inr None else Inl e
               | Inr data \<Rightarrow>
                   (case decode data of
                      None \<Rightarrow> Inl JSONError
                    | Some note \<Rightarrow> Inr (Some note)))
        in (w1\<lparr>files := fst (os_Remove (files w1) (cleanupNoteFile d (files w1)))\<rparr>, result))"

text \<open>
  \<^verbatim>\<open>os.RemoveAll(dir)\<close> removes \<open>dir\<close> and everything below it; \<open>ok\<close> says whether
  the system lets it.
\<close>

definition os_RemoveAll :: "bool \<Rightarrow> fs \<Rightarrow> string \<Rightarrow> fs \<times> error option" where
  "os_RemoveAll ok fls dir =
     (if ok then ((\<lambda>p. if p = dir \<or> prefix (dir @ ''/'') p then None else fls p), None)
      else (fls, Some IOError))"

text \<open>\<^verbatim>\<open>func CleanupOldLauncher() error\<close>\<close>

definition CleanupOldLauncher ::
  "dirs \<Rightarrow> aead \<Rightarrow> entropy \<Rightarrow> (bytes \<Rightarrow> cleanupNote option) \<Rightarrow> string \<Rightarrow> bool \<Rightarrow> world
     \<Rightarrow> world \<times> error option" where
  "CleanupOldLauncher d gcm rnd decode keyName rm_ok w =
     (case consumeCleanupNote d gcm rnd decode keyName w of
        (w1, Inl e) \<Rightarrow> (w1, Some e)
      | (w1, Inr None) \<Rightarrow> (w1, None)
      | (w1, Inr (Some note)) \<Rightarrow>
          (case os_RemoveAll rm_ok (files w1)
                  (PackageDir d ''launcher'' (note_Channel note) (note_Version note)) of
             (f2, Some e) \<Rightarrow> (w1\<lparr>files := f2\<rparr>, Some (Wrapped ''error removing old launcher directory'' e))
           | (f2, None) \<Rightarrow> (w1\<lparr>files := f2\<rparr>, None)))"

subsection \<open>ioutil and repair (internal/ioutil/util.go, internal/repair/repair.go)\<close>

text \<open>
  \<^verbatim>\<open>os.Stat\<close>: the error, or whether the entry is a directory.
\<close>

definition os_Stat :: "fs \<Rightarrow> string \<Rightarrow> error + bool" where
  "os_Stat fls p =
     (case fls p of
        None \<Rightarrow> Inl ErrNotExist
      | Some Inaccessible \<Rightarrow> Inl IOError
      | Some Dir \<Rightarrow> Inr True
      | Some _ \<Rightarrow> Inr False)"

definition os_IsNotExist :: "error \<Rightarrow> bool" where
  "os_IsNotExist e = (e = ErrNotExist)"

text \<open>
  \<^verbatim>\<open>func VerifySHA256(path string, expectedHash string) error\<close>. The parameter
  \<open>sha\<close> is the library's SHA-256, hex-encoded. Opening fails for an absent or
  unreadable file; a directory can be opened, but reading it for the hash fails.
\<close>

definition VerifySHA256 :: "(bytes \<Rightarrow> string) \<Rightarrow> fs \<Rightarrow> string \<Rightarrow> string \<Rightarrow> error option" where
  "VerifySHA256 sha fls path expectedHash =
     (case fls path of
        None \<Rightarrow> Some (Wrapped ''error opening file for hashing'' ErrNotExist)
      | Some Dir \<Rightarrow> Some (Wrapped ''error hashing file'' IOError)
      | Some (File d) \<Rightarrow>
          (let actualHash = sha d
           in if actualHash \<noteq> expectedHash then Some (ChecksumMismatch expectedHash actualHash)
              else None)
      | Some _ \<Rightarrow> Some (Wrapped ''error opening file for hashing'' IOError))"

text \<open>
  \<^verbatim>\<open>type FileStatus int\<close> with its three constants (\<^verbatim>\<open>iota\<close>); the type has more
  values than the constants, which is what the \<^verbatim>\<open>default\<close> branch of \<^verbatim>\<open>Verify\<close>
  is for.
\<close>

type_synonym FileStatus = int

definition FileStatusOK :: FileStatus where "FileStatusOK = 0"
definition FileStatusMissing :: FileStatus where "FileStatusMissing = 1"
definition FileStatusCorrupted :: FileStatus where "FileStatusCorrupted = 2"

record FileResult =
  Path :: string
  Status :: FileStatus
  ExpectedHash :: string
  ActualHash :: string
  Error :: "error option"

record Result =
  TotalFiles :: nat
  OKFiles :: nat
  MissingFiles :: "FileResult list"
  CorruptedFiles :: "FileResult list"
  Errors :: "FileResult list"

text \<open>\<^verbatim>\<open>func (r *Result) IsHealthy() bool\<close> and \<^verbatim>\<open>func (r *Result) NeedsRepair() bool\<close>\<close>

definition IsHealthy :: "Result \<Rightarrow> bool" where
  "IsHealthy r = (length (MissingFiles r) = 0 \<and> length (CorruptedFiles r) = 0 \<and> length (Errors r) = 0)"

definition NeedsRepair :: "Result \<Rightarrow> bool" where
  "NeedsRepair r = (length (MissingFiles r) > 0 \<or> length (CorruptedFiles r) > 0)"

text \<open>\<^verbatim>\<open>func verifyFile(fullPath, relativePath, expectedHash string) FileResult\<close>\<close>

definition verifyFile :: "(bytes \<Rightarrow> string) \<Rightarrow> fs \<Rightarrow> string \<Rightarrow> string \<Rightarrow> string \<Rightarrow> FileResult" where
  "verifyFile sha fls fullPath relativePath expectedHash =
     (let result = \<lparr>Path = relativePath, Status = FileStatusOK, ExpectedHash = expectedHash,
                    ActualHash = [], Error = None\<rparr>
      in case os_Stat fls fullPath of
           Inl e \<Rightarrow>
             if os_IsNotExist e then result\<lparr>Status := FileStatusMissing\<rparr>
             else result\<lparr>Status := FileStatusCorrupted, Error := Some e\<rparr>
         | Inr isDir \<Rightarrow>
             if isDir then result\<lparr>Status := FileStatusOK\<rparr>
             else (case VerifySHA256 sha fls fullPath expectedHash of
                     Some e \<Rightarrow> result\<lparr>Status := FileStatusCorrupted, Error := Some e\<rparr>
                   | None \<Rightarrow> result\<lparr>Status := FileStatusOK\<rparr>))"

text \<open>
  \<^verbatim>\<open>func Verify(installDir string, checksums map[string]string, reporter ProgressReporter)\<close>.
  The map is given as the list of its entries in the order in which the \<^verbatim>\<open>range\<close>
  loop visits them (Go leaves that order open); a nil map is the empty list. The
  reporter is called for its effect only and is left out. \<open>verify_entry\<close> is the body
  of the loop, \<open>verify_loop\<close> the loop.
\<close>

definition verify_entry :: "(bytes \<Rightarrow> string) \<Rightarrow> fs \<Rightarrow> string \<Rightarrow> Result \<Rightarrow> string \<times> string \<Rightarrow> Result" where
  "verify_entry sha fls installDir result entry =
     (case entry of (relativePath, expectedHash) \<Rightarrow>
        let fullPath = filepath_Join [installDir, relativePath];
            fileResult = verifyFile sha fls fullPath relativePath expectedHash
        in if Status fileResult = FileStatusOK then result\<lparr>OKFiles := OKFiles result + 1\<rparr>
           else if Status fileResult = FileStatusMissing
             then result\<lparr>MissingFiles := MissingFiles result @ [fileResult]\<rparr>
           else if Status fileResult = FileStatusCorrupted
             then result\<lparr>CorruptedFiles := CorruptedFiles result @ [fileResult]\<rparr>
           else if Error fileResult \<noteq> None
             then result\<lparr>Errors := Errors result @ [fileResult]\<rparr>
           else result)"

fun verify_loop :: "(bytes \<Rightarrow> string) \<Rightarrow> fs \<Rightarrow> string \<Rightarrow> (string \<times> string) list \<Rightarrow> Result \<Rightarrow> Result" where
  "verify_loop sha fls installDir [] result = result"
| "verify_loop sha fls installDir (entry # rest) result =
     verify_loop sha fls installDir rest (verify_entry sha fls installDir result entry)"

definition Verify :: "(bytes \<Rightarrow> string) \<Rightarrow> fs \<Rightarrow> string \<Rightarrow> (string \<times> string) list \<Rightarrow> error + Result" where
  "Verify sha fls installDir checksums =
     (if length checksums = 0 then Inl NoChecksums
      else Inr (verify_loop sha fls installDir checksums
                  \<lparr>TotalFiles = length checksums, OKFiles = 0, MissingFiles = [],
                   CorruptedFiles = [], Errors = []\<rparr>))"

subsection \<open>account and auth (internal/auth/auth.go)\<close>



















definition demo_world :: world where
  "demo_world = \<lparr>files = Map.empty,
                 keys = \<lparr>enabled = True, failing = False, entries = Map.empty\<rparr>\<rparr>"


subsection \<open>playerprofile (internal/playerprofile/playerprofile.go)\<close>

text \<open>
  \<^verbatim>\<open>os.MkdirAll\<close> on the flat file system: nothing to do for a directory, a new
  directory where nothing is, an error where something else is and for the empty path.
\<close>

definition os_MkdirAll :: "fs \<Rightarrow> string \<Rightarrow> fs \<times> error option" where
  "os_MkdirAll fls dir =
     (case fls dir of
        None \<Rightarrow> if dir = [] then (fls, Some ErrNotExist) else (fls(dir \<mapsto> Dir), None)
      | Some Dir \<Rightarrow> (fls, None)
      | Some _ \<Rightarrow> (fls, Some IOError))"













subsection \<open>HTTP requests (internal/ioutil/get.go, package hytale, package build)\<close>

text \<open>
  A request as the code builds it: method, URL and header. \<^verbatim>\<open>http.NewRequest\<close> and
  \<^verbatim>\<open>http.NewRequestWithContext\<close> return a request with an empty header, or an error for
  a URL that does not parse (\<open>valid\<close> says which do). \<^verbatim>\<open>Header.Set\<close> replaces the
  values of a key.
\<close>

record Request =
  Method :: string
  URL :: string
  Header :: "string \<Rightarrow> string option"

datatype read_result = Data bytes | DataEOF bytes | DataErr bytes error

record Response =
  StatusCode :: nat
  resp_Status :: string
  Body :: "read_result list"

definition http_NewRequest :: "(string \<Rightarrow> bool) \<Rightarrow> string \<Rightarrow> string \<Rightarrow> error + Request" where
  "http_NewRequest valid method url =
     (if valid url then Inr \<lparr>Method = method, URL = url, Header = Map.empty\<rparr>
      else Inl RequestError)"

text \<open>\<^verbatim>\<open>func UserAgent() string\<close> of package \<^verbatim>\<open>build\<close>\<close>

definition UserAgent :: "build \<Rightarrow> string" where
  "UserAgent b =
     (if Release b = ''release'' then ''hytale-launcher/'' @ Version b
      else ''hytale-launcher/'' @ Release b @ ''/'' @ Version b)"

text \<open>\<^verbatim>\<open>func SetUserAgent(req *http.Request)\<close> of package \<^verbatim>\<open>hytale\<close>\<close>

definition SetUserAgent :: "build \<Rightarrow> Request \<Rightarrow> Request" where
  "SetUserAgent b req =
     req\<lparr>Header := (Header req)
           (''User-Agent'' \<mapsto> UserAgent b,
            ''X-Hytale-Launcher-Version'' \<mapsto> Version b,
            ''X-Hytale-Launcher-Branch'' \<mapsto> Release b)\<rparr>"

text \<open>
  \<^verbatim>\<open>func Get[T any](client *http.Client, urlStr string, params url.Values) (T, error)\<close>.
  \<open>Get_request\<close> is the part of the body that builds the request, \<open>client\<close> is
  \<^verbatim>\<open>client.Do\<close>, \<open>encode\<close> is \<^verbatim>\<open>params.Encode()\<close>, \<open>decode\<close> the JSON decoder for
  \<open>T\<close>; reading the body is folded into \<open>decode\<close>.
\<close>

definition Get_request ::
  "(string \<Rightarrow> bool) \<Rightarrow> ((string \<times> string list) list \<Rightarrow> string) \<Rightarrow> string
     \<Rightarrow> (string \<times> string list) list \<Rightarrow> error + Request" where
  "Get_request valid encode urlStr params =
     http_NewRequest valid ''GET''
       (if length params > 0 then urlStr @ ''?'' @ encode params else urlStr)"

definition Get ::
  "(string \<Rightarrow> bool) \<Rightarrow> ((string \<times> string list) list \<Rightarrow> string) \<Rightarrow> (Request \<Rightarrow> error + Response)
     \<Rightarrow> (read_result list \<Rightarrow> 'a option) \<Rightarrow> string \<Rightarrow> (string \<times> string list) list \<Rightarrow> error + 'a" where
  "Get valid encode client decode urlStr params =
     (case Get_request valid encode urlStr params of
        Inl e \<Rightarrow> Inl (Wrapped ''failed to create request'' e)
      | Inr req \<Rightarrow>
          (case client req of
             Inl e \<Rightarrow> Inl (Wrapped ''failed to perform request'' e)
           | Inr resp \<Rightarrow>
               if StatusCode resp \<noteq> 200 then Inl (BadStatus (StatusCode resp))
               else (case decode (Body resp) of
                       None \<Rightarrow> Inl (Wrapped ''failed to decode response'' JSONError)
                     | Some v \<Rightarrow> Inr v)))"

subsection \<open>download (package download, package net)\<close>

text \<open>
  What a download meets: the override \<^verbatim>\<open>build.OfflineMode()\<close> (its function is not
  part of the files of the repository) and the network mode, which URLs parse, the client, whether
  the context is done when the read loop starts its \<open>i\<close>-th round (and with which
  error), and whether the \<open>i\<close>-th write to the file fails.
\<close>

record net_env =
  OfflineMode :: bool
  currentMode :: string
  valid_url :: "string \<Rightarrow> bool"
  client_Do :: "Request \<Rightarrow> error + Response"
  ctx_done :: "nat \<Rightarrow> error option"
  write_fails :: "nat \<Rightarrow> bool"

text \<open>\<^verbatim>\<open>func OfflineError() error\<close> of package \<^verbatim>\<open>net\<close>\<close>

definition OfflineError :: "net_env \<Rightarrow> error option" where
  "OfflineError env =
     (if OfflineMode env then None
      else if currentMode env = ''offline'' then Some ErrOffline
      else None)"

text \<open>
  The read loop of \<^verbatim>\<open>downloadFile\<close>: \<open>content\<close> is what has been written to the
  file. A body whose reads are used up is at its end. The speed estimate and the
  progress reports have no part in the result and are left out.
\<close>

definition read_bytes :: "read_result \<Rightarrow> bytes" where
  "read_bytes r = (case r of Data d \<Rightarrow> d | DataEOF d \<Rightarrow> d | DataErr d e \<Rightarrow> d)"

fun download_loop ::
  "(nat \<Rightarrow> error option) \<Rightarrow> (nat \<Rightarrow> bool) \<Rightarrow> nat \<Rightarrow> read_result list \<Rightarrow> bytes \<Rightarrow> bytes \<times> error option" where
  "download_loop done wfails i [] content =
     (case done i of Some e \<Rightarrow> (content, Some e) | None \<Rightarrow> (content, None))"
| "download_loop done wfails i (r # rs) content =
     (case done i of
        Some e \<Rightarrow> (content, Some e)
      | None \<Rightarrow>
          if length (read_bytes r) > 0 \<and> wfails i then (content, Some IOError)
          else (case r of
                  Data d \<Rightarrow> download_loop done wfails (Suc i) rs (content @ d)
                | DataEOF d \<Rightarrow> (content @ d, None)
                | DataErr d e \<Rightarrow> (content @ d, Some e)))"

text \<open>
  \<^verbatim>\<open>func downloadFile(ctx, client, url, file, reporter) error\<close>: the bytes written to
  the (empty) file, and the error.
\<close>

definition downloadFile_request :: "net_env \<Rightarrow> string \<Rightarrow> error + Request" where
  "downloadFile_request env url = http_NewRequest (valid_url env) ''GET'' url"

definition downloadFile :: "net_env \<Rightarrow> string \<Rightarrow> bytes \<times> error option" where
  "downloadFile env url =
     (case OfflineError env of
        Some e \<Rightarrow> ([], Some e)
      | None \<Rightarrow>
          (case downloadFile_request env url of
             Inl e \<Rightarrow> ([], Some e)
           | Inr req \<Rightarrow>
               (case client_Do env req of
                  Inl e \<Rightarrow> ([], Some e)
                | Inr resp \<Rightarrow>
                    if StatusCode resp = 404 then ([], None)
                    else if StatusCode resp \<noteq> 200 then ([], Some (BadStatus (StatusCode resp)))
                    else download_loop (ctx_done env) (write_fails env) 0 (Body resp) [])))"

text \<open>
  \<^verbatim>\<open>path.Base\<close>, \<^verbatim>\<open>strings.Cut(url, "?")\<close> and \<^verbatim>\<open>func base(url string) string\<close>
\<close>

definition path_Base :: "string \<Rightarrow> string" where
  "path_Base p =
     (if p = [] then ''.''
      else let stripped = rev (dropWhile (\<lambda>c. c = CHR ''/'') (rev p));
               elem = rev (takeWhile (\<lambda>c. c \<noteq> CHR ''/'') (rev stripped))
           in if elem = [] then ''/'' else elem)"

definition base :: "string \<Rightarrow> string" where
  "base url = path_Base (takeWhile (\<lambda>c. c \<noteq> CHR ''?'') url)"

text \<open>
  \<^verbatim>\<open>os.CreateTemp(dir, pattern)\<close>: the last \<open>*\<close> of the pattern is replaced by a random
  string \<open>rnd\<close>. It fails for a pattern with a separator, without the directory, and (here)
  when the name is taken.
\<close>

definition os_CreateTemp :: "fs \<Rightarrow> string \<Rightarrow> string \<Rightarrow> string \<Rightarrow> fs \<times> (error + string)" where
  "os_CreateTemp fls dir pattern rnd =
     (let name = filepath_Join [dir,
            (if CHR ''*'' \<in> set pattern
             then rev (tl (dropWhile (\<lambda>c. c \<noteq> CHR ''*'') (rev pattern))) @ rnd @
                  rev (takeWhile (\<lambda>c. c \<noteq> CHR ''*'') (rev pattern))
             else pattern @ rnd)]
      in if CHR ''/'' \<in> set pattern then (fls, Inl IOError)
         else if fls dir \<noteq> Some Dir then (fls, Inl IOError)
         else if fls name \<noteq> None then (fls, Inl IOError)
         else (fls(name \<mapsto> File []), Inr name))"

text \<open>
  \<^verbatim>\<open>func DownloadTemp(ctx, client, dir, url, sha256, reporter) (string, error)\<close>. The
  deferred function closes the file and removes it unless \<open>success\<close> was set;
  \<open>remove_temp\<close> is that removal.
\<close>

definition remove_temp :: "fs \<Rightarrow> string \<Rightarrow> fs" where
  "remove_temp fls name = fst (os_Remove fls name)"

definition DownloadTemp ::
  "net_env \<Rightarrow> (bytes \<Rightarrow> string) \<Rightarrow> string \<Rightarrow> fs \<Rightarrow> string \<Rightarrow> string \<Rightarrow> string \<Rightarrow> fs \<times> (error + string)" where
  "DownloadTemp env sha rnd fls dir url sha256 =
     (case os_MkdirAll fls dir of
        (f1, Some e) \<Rightarrow> (f1, Inl e)
      | (f1, None) \<Rightarrow>
          (case os_CreateTemp f1 dir (''dl-*-'' @ base url) rnd of
             (f2, Inl e) \<Rightarrow> (f2, Inl e)
           | (f2, Inr tempName) \<Rightarrow>
               (case downloadFile env url of (content, err) \<Rightarrow>
                  let f3 = f2(tempName \<mapsto> File content)
                  in (case err of
                        Some e \<Rightarrow>
                          if errors_Is e Canceled then (remove_temp f3 tempName, Inl Canceled)
                          else (remove_temp f3 tempName, Inl (Wrapped ''error downloading file'' e))
                      | None \<Rightarrow>
                          if sha256 \<noteq> []
                          then (case VerifySHA256 sha f3 tempName sha256 of
                                  Some e \<Rightarrow> (remove_temp f3 tempName, Inl e)
                                | None \<Rightarrow> (f3, Inr tempName))
                          else (f3, Inr tempName)))))"

text \<open>
  Stand-ins at concrete inputs: a ``hash'' and a network whose server answers every
  request with 404.
\<close>

definition demo_sha :: "bytes \<Rightarrow> string" where
  "demo_sha d = ''sha:'' @ d"

definition not_found_env :: net_env where
  "not_found_env = \<lparr>OfflineMode = False, currentMode = ''online'', valid_url = (\<lambda>u. True),
     client_Do = (\<lambda>req. Inr \<lparr>StatusCode = 404, resp_Status = ''404 Not Found'', Body = []\<rparr>),
     ctx_done = (\<lambda>i. None), write_fails = (\<lambda>i. False)\<rparr>"

text \<open>
  The request that \<^verbatim>\<open>RepairFile\<close> (package \<^verbatim>\<open>repair\<close>) builds for its download, with
  \<^verbatim>\<open>http.NewRequestWithContext(ctx, http.MethodGet, downloadURL, nil)\<close>, and hands to
  \<^verbatim>\<open>http.DefaultClient.Do\<close>.
\<close>

definition RepairFile_request :: "(string \<Rightarrow> bool) \<Rightarrow> string \<Rightarrow> error + Request" where
  "RepairFile_request valid downloadURL = http_NewRequest valid ''GET'' downloadURL"

text \<open>A stand-in for \<^verbatim>\<open>url.Values.Encode\<close> at concrete inputs.\<close>

definition demo_encode :: "(string \<times> string list) list \<Rightarrow> string" where
  "demo_encode params = concat (map (\<lambda>kv. fst kv @ ''='' @ concat (snd kv) @ ''&'') params)"

definition any_url :: "string \<Rightarrow> bool" where
  "any_url u = True"

subsection \<open>extract (internal/extract/archive.go)\<close>

















subsection \<open>appstate (internal/appstate/io.go, package build)\<close>

text \<open>\<^verbatim>\<open>type Platform struct\<close> and \<^verbatim>\<open>func (p *Platform) String() string\<close>\<close>

record platform =
  OS :: string
  Arch :: string

definition Platform_String :: "platform \<Rightarrow> string" where
  "Platform_String p = OS p @ ''-'' @ Arch p"

text \<open>
  Modelled from the spec: the struct \<^verbatim>\<open>State\<close> is declared outside the files of the repository.
  \<^verbatim>\<open>Channel\<close>, \<^verbatim>\<open>IsNew\<close> and \<^verbatim>\<open>Platform\<close> (a pointer, so possibly nil) are the fields
  that \<^verbatim>\<open>io.go\<close> uses; the dependencies and the offline flag follow the spec's data
  model, the dependencies in a representation \<open>'d\<close> left open.
\<close>

record 'd State =
  Channel :: string
  IsNew :: bool
  Platform :: "platform option"
  Dependencies :: 'd
  OfflineReady :: bool

text \<open>
  \<^verbatim>\<open>json.Marshal\<close> of a state and \<^verbatim>\<open>json.Unmarshal\<close> into a state that has been
  initialised, as parameters.
\<close>

record 'd state_codec =
  marshal :: "'d State \<Rightarrow> bytes option"
  unmarshal :: "bytes \<Rightarrow> 'd State \<Rightarrow> 'd State option"

definition encryptionKeyName :: string where
  "encryptionKeyName = ''B7F94324-4365-4EB7-A3FC-7FADAA2EEA2F''"

text \<open>\<^verbatim>\<open>func (s *State) envFile() string\<close>, for the channel of the state\<close>

definition envFile :: "dirs \<Rightarrow> fs \<Rightarrow> string \<Rightarrow> string" where
  "envFile d fls channel = DatFile fls (filepath_Join [ChannelDir d channel, ''env''])"

text \<open>
  \<^verbatim>\<open>func (s *State) writeFile() error\<close> and \<^verbatim>\<open>func (s *State) Save(cause string)\<close>,
  which logs and reports the error of \<open>writeFile\<close> and returns nothing.
\<close>

definition writeFile ::
  "build \<Rightarrow> aead \<Rightarrow> entropy \<Rightarrow> entropy \<Rightarrow> 'd state_codec \<Rightarrow> dirs \<Rightarrow> world \<Rightarrow> 'd State
     \<Rightarrow> world \<times> error option" where
  "writeFile b gcm rnd_key rnd_nonce codec d w s =
     (case marshal codec s of
        None \<Rightarrow> (w, Some (Wrapped ''error marshaling launcher state for write'' JSONError))
      | Some data \<Rightarrow>
          crypto_WriteFile b gcm rnd_key rnd_nonce w (envFile d (files w) (Channel s))
            encryptionKeyName data)"

definition Save ::
  "build \<Rightarrow> aead \<Rightarrow> entropy \<Rightarrow> entropy \<Rightarrow> 'd state_codec \<Rightarrow> dirs \<Rightarrow> world \<Rightarrow> 'd State \<Rightarrow> world" where
  "Save b gcm rnd_key rnd_nonce codec d w s = fst (writeFile b gcm rnd_key rnd_nonce codec d w s)"

text \<open>
  \<^verbatim>\<open>func validatePlatform(s *State) error\<close>; \<open>current\<close> is \<^verbatim>\<open>build.GetPlatform()\<close>.
\<close>

definition validatePlatform :: "platform \<Rightarrow> 'd State \<Rightarrow> error option" where
  "validatePlatform current s =
     (case Platform s of
        None \<Rightarrow> None
      | Some saved \<Rightarrow>
          if saved = current then None
          else Some (PlatformMismatch (Platform_String saved) (Platform_String current)))"

text \<open>
  \<^verbatim>\<open>func New(channel string) *State\<close> and \<^verbatim>\<open>func Load(channel string) (*State, error)\<close>;
  \<open>zero\<close> is the zero value of the dependencies.
\<close>

definition New_State :: "platform \<Rightarrow> 'd \<Rightarrow> string \<Rightarrow> 'd State" where
  "New_State current zero channel =
     \<lparr>Channel = channel, IsNew = True, Platform = Some current, Dependencies = zero,
      OfflineReady = False\<rparr>"

definition Load ::
  "aead \<Rightarrow> entropy \<Rightarrow> 'd state_codec \<Rightarrow> dirs \<Rightarrow> platform \<Rightarrow> 'd \<Rightarrow> world \<Rightarrow> string
     \<Rightarrow> world \<times> (error + 'd State)" where
  "Load gcm rnd codec d current zero w channel =
     (let s = \<lparr>Channel = channel, IsNew = False, Platform = None, Dependencies = zero,
               OfflineReady = False\<rparr>
      in case crypto_ReadFile gcm rnd w (envFile d (files w) channel) encryptionKeyName of
           (w', Inl e) \<Rightarrow>
             if errors_Is e ErrNotExist then (w', Inl ErrNotFound) else (w', Inl e)
         | (w', Inr data) \<Rightarrow>
             (case unmarshal codec data s of
                None \<Rightarrow> (w', Inl JSONError)
              | Some s' \<Rightarrow>
                  (case validatePlatform current s' of
                     Some e \<Rightarrow> (w', Inl e)
                   | None \<Rightarrow> (w', Inr s'))))"

text \<open>
  Stand-ins at concrete inputs: a codec that knows the empty object and one platform,
  two platforms, two states of the channel \<open>release\<close>, and the storage directories.
\<close>

definition linux_amd64 :: platform where
  "linux_amd64 = \<lparr>OS = ''linux'', Arch = ''amd64''\<rparr>"


definition demo_codec :: "unit state_codec" where
  "demo_codec =
     \<lparr>marshal = (\<lambda>s. case Platform s of
                       None \<Rightarrow> Some ''{}''
                     | Some p \<Rightarrow> Some (''{platform:'' @ Platform_String p @ ''}'')),
      unmarshal = (\<lambda>data s.
                     if data = ''{}'' then Some s
                     else if data = ''{platform:linux-amd64}''
                       then Some (s\<lparr>Platform := Some linux_amd64\<rparr>)
                     else None)\<rparr>"


definition state_amd64 :: "unit State" where
  "state_amd64 =
     \<lparr>Channel = ''release'', IsNew = False, Platform = Some linux_amd64, Dependencies = (),
      OfflineReady = False\<rparr>"

definition demo_dirs :: dirs where
  "demo_dirs = \<lparr>DataDir = ''/data/hytale'', StorageDir = ''/data/hytale''\<rparr>"

section \<open>Properties\<close>

subsection \<open>ProgressGate\<close>


lemma emitted_boundary_all:
  "\<forall>v\<in>set vs. v < 0.01 \<or> 0.99 \<le> v \<Longrightarrow> emitted g vs = vs"
  by (induction vs arbitrary: g) (auto simp: Update_def)





subsection \<open>Encrypt and Decrypt\<close>

lemma demo_gcm_correct: "aead_correct demo_gcm"
  by (simp add: aead_correct_def demo_gcm_def)

lemma Decrypt_unmarked:
  "data = [] \<or> hd data \<noteq> CHR ''E'' \<Longrightarrow> Decrypt gcm data key = Inr data"
  by (cases data) (auto simp: Decrypt_def)

lemma Encrypt_dev: "Release b = ''dev'' \<Longrightarrow> Encrypt b gcm rnd data key = Inr data"
  by (simp add: Encrypt_def)

lemma decrypt_encrypt_release:
  assumes "aead_correct gcm" and "valid_key_size key" and "Release b \<noteq> ''dev''"
  shows "decrypt_encrypt b gcm (Some f) data key = Inr data"
proof -
  let ?nonce = "map f [0..<nonceSize]"
  have e: "Encrypt b gcm (Some f) data key = Inr (CHR ''E'' # ?nonce @ seal gcm key ?nonce data)"
    using assms(2,3) by (simp add: Encrypt_def rand_Read_def)
  have u: "unseal gcm key ?nonce (seal gcm key ?nonce data) = Some data"
    using assms(1) by (simp add: aead_correct_def)
  have "Decrypt gcm (CHR ''E'' # ?nonce @ seal gcm key ?nonce data) key = Inr data"
    using assms(2) u by (simp add: Decrypt_def)
  with e show ?thesis by (simp add: decrypt_encrypt_def)
qed

text \<open>
  Claim C3, as stated: for every plaintext and every 32-byte key, decrypting the result of
  \<open>Encrypt\<close> succeeds and returns the plaintext, and a dev build returns the plaintext
  unchanged. The two halves do not hold together: a dev build hands a plaintext that
  starts with the byte \<open>E\<close> to \<open>Decrypt\<close> unchanged, which takes the byte for the
  marker of an encrypted file.
\<close>

theorem decrypt_encrypt_dev_counterexample:
  "Encrypt dev_build demo_gcm demo_entropy ''E'' demo_key = Inr ''E'' \<and>
   decrypt_encrypt dev_build demo_gcm demo_entropy ''E'' demo_key = Inl CiphertextTooShort"
  by (simp add: decrypt_encrypt_def Encrypt_def Decrypt_def dev_build_def demo_key_def
      valid_key_size_def nonceSize_def)

text \<open>
  Claim C3, amended: for every plaintext \<open>m\<close> and 32-byte key \<open>k\<close>, with AES-GCM
  correct: in a build other than dev, whenever the random source delivers the nonce,
  \<open>Decrypt (Encrypt m k) k\<close> succeeds and returns \<open>m\<close>; in a dev build
  \<open>Encrypt m k\<close> is \<open>m\<close>, and \<open>Decrypt (Encrypt m k) k\<close> returns \<open>m\<close> when \<open>m\<close> is
  empty or does not start with the byte \<open>E\<close>.
\<close>

theorem encrypt_decrypt_transparent:
  assumes "aead_correct gcm" and "length k = 32"
  shows "(Release b \<noteq> ''dev'' \<longrightarrow> decrypt_encrypt b gcm (Some f) m k = Inr m) \<and>
         (Release b = ''dev'' \<longrightarrow>
            Encrypt b gcm rnd m k = Inr m \<and>
            (m = [] \<or> hd m \<noteq> CHR ''E'' \<longrightarrow> decrypt_encrypt b gcm rnd m k = Inr m))"
proof -
  have v: "valid_key_size k" using assms(2) by (simp add: valid_key_size_def)
  show ?thesis
    using decrypt_encrypt_release [OF assms(1) v] Encrypt_dev [of b gcm rnd m k]
      Decrypt_unmarked [of m gcm k]
    by (auto simp: decrypt_encrypt_def)
qed

theorem encrypt_decrypt_transparent_witness:
  "decrypt_encrypt release_build demo_gcm demo_entropy ''Eve'' demo_key = Inr ''Eve'' \<and>
   Encrypt dev_build demo_gcm None ''{}'' demo_key = Inr ''{}'' \<and>
   decrypt_encrypt dev_build demo_gcm None ''{}'' demo_key = Inr ''{}''"
proof -
  have k: "length demo_key = 32" by (simp add: demo_key_def)
  have r: "Release release_build \<noteq> ''dev''" by (simp add: release_build_def)
  have d: "Release dev_build = ''dev''" by (simp add: dev_build_def)
  have n: "''{}'' = [] \<or> hd ''{}'' \<noteq> CHR ''E''" by simp
  from encrypt_decrypt_transparent [OF demo_gcm_correct k, of release_build "\<lambda>i. CHR ''n''" "''Eve''"] r
  have 1: "decrypt_encrypt release_build demo_gcm demo_entropy ''Eve'' demo_key = Inr ''Eve''"
    by (simp add: demo_entropy_def)
  from encrypt_decrypt_transparent [OF demo_gcm_correct k, of dev_build _ "''{}''" None] d n
  have 2: "Encrypt dev_build demo_gcm None ''{}'' demo_key = Inr ''{}'' \<and>
           decrypt_encrypt dev_build demo_gcm None ''{}'' demo_key = Inr ''{}''"
    by blast
  from 1 2 show ?thesis by simp
qed

subsection \<open>The cleanup note\<close>




subsection \<open>Verify\<close>

lemma verifyFile_Status:
  "Status (verifyFile sha fls fullPath relativePath expectedHash) =
     (case fls fullPath of
        None \<Rightarrow> FileStatusMissing
      | Some Dir \<Rightarrow> FileStatusOK
      | Some (File d) \<Rightarrow> if sha d = expectedHash then FileStatusOK else FileStatusCorrupted
      | Some _ \<Rightarrow> FileStatusCorrupted)"
  by (auto simp: verifyFile_def os_Stat_def os_IsNotExist_def VerifySHA256_def Let_def
      split: option.splits node.splits)

lemma verifyFile_Status_cases:
  "Status (verifyFile sha fls fullPath relativePath expectedHash)
     \<in> {FileStatusOK, FileStatusMissing, FileStatusCorrupted}"
  by (auto simp: verifyFile_Status split: option.splits node.splits)

lemma verify_entry_Errors:
  "Errors (verify_entry sha fls installDir result entry) = Errors result"
proof (cases entry)
  case (Pair relativePath expectedHash)
  show ?thesis
    using verifyFile_Status_cases
      [of sha fls "filepath_Join [installDir, relativePath]" relativePath expectedHash]
    by (auto simp: verify_entry_def Pair Let_def)
qed

lemma verify_loop_Errors:
  "Errors (verify_loop sha fls installDir checksums result) = Errors result"
  by (induction checksums arbitrary: result) (simp_all add: verify_entry_Errors)

text \<open>
  Claim C9: \<open>verifyFile\<close> classifies every outcome as OK, Missing or Corrupted (a
  \<open>Stat\<close> failure other than not-exist and a hash mismatch are both Corrupted), so for
  a non-empty checksum map \<open>Verify\<close> returns a result whose \<open>Errors\<close> list is empty,
  and \<open>IsHealthy\<close> says that there is no missing and no corrupted file. (For an empty
  map \<open>Verify\<close> returns an error and no result.)
\<close>

theorem Verify_no_Errors:
  "Status (verifyFile sha fls fullPath relativePath expectedHash) =
     (case fls fullPath of
        None \<Rightarrow> FileStatusMissing
      | Some Dir \<Rightarrow> FileStatusOK
      | Some (File d) \<Rightarrow> if sha d = expectedHash then FileStatusOK else FileStatusCorrupted
      | Some Unreadable \<Rightarrow> FileStatusCorrupted
      | Some Inaccessible \<Rightarrow> FileStatusCorrupted) \<and>
   (case Verify sha fls installDir checksums of
      Inl e \<Rightarrow> checksums = []
    | Inr r \<Rightarrow> checksums \<noteq> [] \<and> Errors r = [] \<and>
        IsHealthy r = (MissingFiles r = [] \<and> CorruptedFiles r = []))"
proof
  show "Status (verifyFile sha fls fullPath relativePath expectedHash) =
     (case fls fullPath of
        None \<Rightarrow> FileStatusMissing
      | Some Dir \<Rightarrow> FileStatusOK
      | Some (File d) \<Rightarrow> if sha d = expectedHash then FileStatusOK else FileStatusCorrupted
      | Some Unreadable \<Rightarrow> FileStatusCorrupted
      | Some Inaccessible \<Rightarrow> FileStatusCorrupted)"
    by (simp add: verifyFile_Status split: option.splits node.splits)
next
  show "case Verify sha fls installDir checksums of
      Inl e \<Rightarrow> checksums = []
    | Inr r \<Rightarrow> checksums \<noteq> [] \<and> Errors r = [] \<and>
        IsHealthy r = (MissingFiles r = [] \<and> CorruptedFiles r = [])"
    by (simp add: Verify_def verify_loop_Errors IsHealthy_def)
qed

text \<open>
  The classification at work: one intact file, one altered file, one absent file.
\<close>

lemma Verify_example:
  "Verify (\<lambda>d. ''h'' @ d) [''/g/a'' \<mapsto> File ''1'', ''/g/b'' \<mapsto> File ''2''] ''/g''
     [(''a'', ''h1''), (''b'', ''h1''), (''c'', ''h3'')] =
   Inr \<lparr>TotalFiles = 3, OKFiles = 1,
        MissingFiles = [\<lparr>Path = ''c'', Status = 1, ExpectedHash = ''h3'', ActualHash = [], Error = None\<rparr>],
        CorruptedFiles = [\<lparr>Path = ''b'', Status = 2, ExpectedHash = ''h1'', ActualHash = [],
                            Error = Some (ChecksumMismatch ''h1'' ''h2'')\<rparr>],
        Errors = []\<rparr>"
  by (simp add: Verify_def verify_entry_def verifyFile_def os_Stat_def os_IsNotExist_def
      VerifySHA256_def filepath_Clean_def clean_elems_def clean_elem_def is_rooted_def
      FileStatusOK_def FileStatusMissing_def FileStatusCorrupted_def Let_def)

subsection \<open>Token rotation\<close>




subsection \<open>Offline UUIDs\<close>





subsection \<open>DownloadTemp\<close>

lemma os_CreateTemp_created:
  "os_CreateTemp fls dir pattern rnd = (f2, Inr name) \<Longrightarrow> f2 = fls(name \<mapsto> File [])"
  by (auto simp: os_CreateTemp_def Let_def split: if_splits)

lemma remove_temp_file: "remove_temp (fls(name \<mapsto> File d)) name = fls(name := None)"
  by (simp add: remove_temp_def os_Remove_def)

lemma DownloadTemp_created:
  assumes "os_MkdirAll fls dir = (f1, None)"
    and "os_CreateTemp f1 dir (''dl-*-'' @ base url) rnd = (f2, Inr tempName)"
  shows "DownloadTemp env sha rnd fls dir url sha256 =
     (case downloadFile env url of (content, err) \<Rightarrow>
        (case err of
           Some e \<Rightarrow>
             (f2(tempName := None),
              if errors_Is e Canceled then Inl Canceled
              else Inl (Wrapped ''error downloading file'' e))
         | None \<Rightarrow>
             if sha256 \<noteq> [] \<and> sha content \<noteq> sha256
             then (f2(tempName := None), Inl (ChecksumMismatch sha256 (sha content)))
             else (f2(tempName \<mapsto> File content), Inr tempName)))"
  using assms
  by (auto simp: DownloadTemp_def remove_temp_file VerifySHA256_def Let_def
      split: prod.splits option.splits)

lemma downloadFile_status:
  assumes "OfflineError env = None" and "valid_url env url"
    and "client_Do env \<lparr>Method = ''GET'', URL = url, Header = Map.empty\<rparr> = Inr resp"
  shows "StatusCode resp = 404 \<Longrightarrow> downloadFile env url = ([], None)"
    and "StatusCode resp \<noteq> 404 \<Longrightarrow> StatusCode resp \<noteq> 200 \<Longrightarrow>
         downloadFile env url = ([], Some (BadStatus (StatusCode resp)))"
  using assms by (simp_all add: downloadFile_def downloadFile_request_def http_NewRequest_def)

text \<open>
  Claim C5, as stated: a 404 response makes \<open>DownloadTemp\<close> succeed with the path of a
  zero-byte file. With an expected hash, the empty file is verified like any other
  download and the call fails (and removes the file).
\<close>

theorem DownloadTemp_404_counterexample:
  "snd (DownloadTemp not_found_env demo_sha ''123'' [''/cache'' \<mapsto> Dir] ''/cache''
          ''https://h/patches/42?to=43'' ''abc'') = Inl (ChecksumMismatch ''abc'' ''sha:'') \<and>
   fst (DownloadTemp not_found_env demo_sha ''123'' [''/cache'' \<mapsto> Dir] ''/cache''
          ''https://h/patches/42?to=43'' ''abc'') ''/cache/dl-123-42'' = None"
  by (simp add: DownloadTemp_def os_MkdirAll_def os_CreateTemp_def base_def path_Base_def
      downloadFile_def downloadFile_request_def http_NewRequest_def OfflineError_def
      not_found_env_def VerifySHA256_def demo_sha_def remove_temp_def os_Remove_def
      filepath_Clean_def clean_elems_def clean_elem_def is_rooted_def Let_def)

text \<open>
  Claim C5, amended: once the temp file exists and the server has answered, \<open>DownloadTemp\<close>
  treats a 404 response as success and returns the path of a zero-byte temp file when no
  hash is expected (or the expected hash is that of the empty file), and otherwise fails
  with the checksum mismatch; every status other than 200 and 404 makes it fail with the
  status error; and whenever it fails after the temp file was created, the temp file is
  removed.
\<close>

theorem DownloadTemp_status:
  assumes "os_MkdirAll fls dir = (f1, None)"
    and "os_CreateTemp f1 dir (''dl-*-'' @ base url) rnd = (f2, Inr tempName)"
  shows "(OfflineError env = None \<and> valid_url env url \<and>
          client_Do env \<lparr>Method = ''GET'', URL = url, Header = Map.empty\<rparr> = Inr resp \<longrightarrow>
            (StatusCode resp = 404 \<longrightarrow>
               DownloadTemp env sha rnd fls dir url sha256 =
                 (if sha256 = [] \<or> sha [] = sha256
                  then (f2(tempName \<mapsto> File []), Inr tempName)
                  else (f2(tempName := None), Inl (ChecksumMismatch sha256 (sha []))))) \<and>
            (StatusCode resp \<noteq> 404 \<and> StatusCode resp \<noteq> 200 \<longrightarrow>
               DownloadTemp env sha rnd fls dir url sha256 =
                 (f2(tempName := None),
                  Inl (Wrapped ''error downloading file'' (BadStatus (StatusCode resp)))))) \<and>
         (\<forall>e. snd (DownloadTemp env sha rnd fls dir url sha256) = Inl e \<longrightarrow>
               fst (DownloadTemp env sha rnd fls dir url sha256) tempName = None)"
proof (intro conjI impI allI)
  assume a: "OfflineError env = None \<and> valid_url env url \<and>
          client_Do env \<lparr>Method = ''GET'', URL = url, Header = Map.empty\<rparr> = Inr resp"
    and s: "StatusCode resp = 404"
  have "downloadFile env url = ([], None)"
    using downloadFile_status(1) [of env url resp] a s by simp
  then show "DownloadTemp env sha rnd fls dir url sha256 =
                 (if sha256 = [] \<or> sha [] = sha256
                  then (f2(tempName \<mapsto> File []), Inr tempName)
                  else (f2(tempName := None), Inl (ChecksumMismatch sha256 (sha []))))"
    by (auto simp: DownloadTemp_created [OF assms])
next
  assume a: "OfflineError env = None \<and> valid_url env url \<and>
          client_Do env \<lparr>Method = ''GET'', URL = url, Header = Map.empty\<rparr> = Inr resp"
    and s: "StatusCode resp \<noteq> 404 \<and> StatusCode resp \<noteq> 200"
  have "downloadFile env url = ([], Some (BadStatus (StatusCode resp)))"
    using downloadFile_status(2) [of env url resp] a s by simp
  then show "DownloadTemp env sha rnd fls dir url sha256 =
                 (f2(tempName := None),
                  Inl (Wrapped ''error downloading file'' (BadStatus (StatusCode resp))))"
    by (simp add: DownloadTemp_created [OF assms])
next
  fix e
  assume "snd (DownloadTemp env sha rnd fls dir url sha256) = Inl e"
  then show "fst (DownloadTemp env sha rnd fls dir url sha256) tempName = None"
    by (auto simp: DownloadTemp_created [OF assms] split: prod.splits option.splits if_splits)
qed

theorem DownloadTemp_status_witness:
  "snd (DownloadTemp not_found_env demo_sha ''123'' [''/cache'' \<mapsto> Dir] ''/cache''
          ''https://h/patches/42?to=43'' []) = Inr ''/cache/dl-123-42'' \<and>
   fst (DownloadTemp not_found_env demo_sha ''123'' [''/cache'' \<mapsto> Dir] ''/cache''
          ''https://h/patches/42?to=43'' []) ''/cache/dl-123-42'' = Some (File [])"
proof -
  let ?fls = "[''/cache'' \<mapsto> Dir]"
  let ?url = "''https://h/patches/42?to=43''"
  have m: "os_MkdirAll ?fls ''/cache'' = (?fls, None)"
    by (simp add: os_MkdirAll_def)
  have c: "os_CreateTemp ?fls ''/cache'' (''dl-*-'' @ base ?url) ''123'' =
             (?fls(''/cache/dl-123-42'' \<mapsto> File []), Inr ''/cache/dl-123-42'')"
    by (simp add: os_CreateTemp_def base_def path_Base_def filepath_Clean_def clean_elems_def
        clean_elem_def is_rooted_def Let_def)
  have h: "OfflineError not_found_env = None \<and> valid_url not_found_env ?url \<and>
           client_Do not_found_env \<lparr>Method = ''GET'', URL = ?url, Header = Map.empty\<rparr> =
             Inr \<lparr>StatusCode = 404, resp_Status = ''404 Not Found'', Body = []\<rparr>"
    by (simp add: OfflineError_def not_found_env_def)
  from DownloadTemp_status [OF m c, of not_found_env
      "\<lparr>StatusCode = 404, resp_Status = ''404 Not Found'', Body = []\<rparr>" demo_sha "[]"] h
  have "DownloadTemp not_found_env demo_sha ''123'' ?fls ''/cache'' ?url [] =
          (?fls(''/cache/dl-123-42'' \<mapsto> File [], ''/cache/dl-123-42'' \<mapsto> File []), Inr ''/cache/dl-123-42'')"
    by simp
  then show ?thesis by simp
qed

subsection \<open>Request headers\<close>

lemma SetUserAgent_headers:
  "Header (SetUserAgent b req) ''User-Agent'' = Some (UserAgent b) \<and>
   Header (SetUserAgent b req) ''X-Hytale-Launcher-Version'' = Some (Version b) \<and>
   Header (SetUserAgent b req) ''X-Hytale-Launcher-Branch'' = Some (Release b)"
  by (simp add: SetUserAgent_def)

lemma built_requests_have_no_header:
  "(case Get_request valid encode urlStr params of Inl e \<Rightarrow> True | Inr req \<Rightarrow> Header req = Map.empty) \<and>
   (case downloadFile_request env url of Inl e \<Rightarrow> True | Inr req \<Rightarrow> Header req = Map.empty) \<and>
   (case RepairFile_request valid url of Inl e \<Rightarrow> True | Inr req \<Rightarrow> Header req = Map.empty)"
  by (simp add: Get_request_def downloadFile_request_def RepairFile_request_def http_NewRequest_def)

text \<open>
  Claim C6 says that every request the launcher builds carries the headers \<open>User-Agent\<close>,
  \<open>X-Hytale-Launcher-Version\<close> and \<open>X-Hytale-Launcher-Branch\<close>. The requests that
  \<open>Get\<close>, \<open>downloadFile\<close> and \<open>RepairFile\<close> build carry none of them: \<open>SetUserAgent\<close>,
  which would set them (\<open>SetUserAgent_headers\<close>), is not applied to any of them.
\<close>

theorem requests_without_launcher_headers:
  "Get_request any_url demo_encode ''https://launcher.example/launcher-feed/release/feed.json'' [] =
     Inr \<lparr>Method = ''GET'', URL = ''https://launcher.example/launcher-feed/release/feed.json'',
          Header = Map.empty\<rparr> \<and>
   downloadFile_request not_found_env ''https://h/patches/42'' =
     Inr \<lparr>Method = ''GET'', URL = ''https://h/patches/42'', Header = Map.empty\<rparr> \<and>
   RepairFile_request any_url ''https://h/files/a.bin'' =
     Inr \<lparr>Method = ''GET'', URL = ''https://h/files/a.bin'', Header = Map.empty\<rparr> \<and>
   Map.empty ''X-Hytale-Launcher-Version'' = (None :: string option)"
  by (simp add: Get_request_def downloadFile_request_def RepairFile_request_def
      http_NewRequest_def any_url_def not_found_env_def)

subsection \<open>Archive extraction\<close>








subsection \<open>State round trip\<close>











text \<open>
  The condition on the key store is needed: the Linux store is disabled unless an
  environment variable enables it, \<open>GetOrGenKey\<close> then makes a new random key on every
  call, and in a build other than dev \<open>Load\<close> cannot open what \<open>Save\<close> sealed.
\<close>

lemma Load_with_disabled_key_store_example:
  "snd (Load demo_gcm (Some (\<lambda>i. CHR ''m'')) demo_codec demo_dirs linux_amd64 ()
          (Save release_build demo_gcm demo_entropy demo_entropy demo_codec demo_dirs
             (demo_world\<lparr>keys := \<lparr>enabled = False, failing = False, entries = Map.empty\<rparr>\<rparr>)
             state_amd64)
          ''release'') = Inl AuthFailed"
  by code_simp

end
